theory Spec2Isabelle
  imports Main "HOL-Library.Sublist"
begin

section \<open>Python values and exceptions\<close>

text \<open>
  Python strings are modelled as \<^typ>\<open>string\<close>: a list of 8-bit characters, read as the code
  points 0 to 255. A value that is either a string or \<open>None\<close> is a \<^typ>\<open>string option\<close>.
  Every \<open>raise\<close> and every failing \<open>assert\<close> of the program is an \<open>Inl\<close> result.
\<close>

datatype exception =
    LocalizationError string int
  | AssertionError
  | TypeError
  | NoSectionError
  | NoOptionError
  | InterpolationSyntaxError
  | InterpolationMissingOptionError
  | InterpolationDepthError
  | ParsingError string

text \<open>\<open>LocalizationError.__init__(self, message, errno=0)\<close>: the code defaults to 0.\<close>

definition LocalizationError_init :: "string \<Rightarrow> int option \<Rightarrow> exception" where
  "LocalizationError_init message errno =
     LocalizationError message (case errno of None \<Rightarrow> 0 | Some n \<Rightarrow> n)"

fun message :: "exception \<Rightarrow> string option" where
  "message (LocalizationError m c) = Some m"
| "message _ = None"

fun errno :: "exception \<Rightarrow> int option" where
  "errno (LocalizationError m c) = Some c"
| "errno _ = None"

section \<open>String primitives\<close>

text \<open>
  \<open>str.replace(old, new)\<close>: the occurrences of \<open>old\<close> are found from left to right and do
  not overlap; an empty \<open>old\<close> matches before every character and at the end.
\<close>

function replace :: "string \<Rightarrow> string \<Rightarrow> string \<Rightarrow> string" where
  "replace old new [] = (if old = [] then new else [])"
| "replace old new (c # cs) =
     (if old = [] then new @ c # replace old new cs
      else if prefix old (c # cs) then new @ replace old new (drop (length old) (c # cs))
      else c # replace old new cs)"
  by pat_completeness auto
termination
  by (relation "measure (\<lambda>(old, new, s). length s)") auto

definition backslash :: char where
  "backslash = CHR 0x5C"

definition newline :: char where
  "newline = CHR 0x0A"

definition ESC :: char where
  "ESC = CHR 0x1B"

section \<open>The colour constants\<close>

definition BLACK :: string where "BLACK = ESC # ''[30m''"
definition RED :: string where "RED = ESC # ''[31m''"
definition GREEN :: string where "GREEN = ESC # ''[32m''"
definition YELLOW :: string where "YELLOW = ESC # ''[33m''"
definition BLUE :: string where "BLUE = ESC # ''[34m''"
definition MAGENTA :: string where "MAGENTA = ESC # ''[35m''"
definition CYAN :: string where "CYAN = ESC # ''[36m''"
definition WHITE :: string where "WHITE = ESC # ''[37m''"
definition BRIGHT_RED :: string where "BRIGHT_RED = ESC # ''[91m''"
definition BRIGHT_GREEN :: string where "BRIGHT_GREEN = ESC # ''[92m''"
definition BRIGHT_YELLOW :: string where "BRIGHT_YELLOW = ESC # ''[93m''"
definition BRIGHT_BLUE :: string where "BRIGHT_BLUE = ESC # ''[94m''"
definition BRIGHT_MAGENTA :: string where "BRIGHT_MAGENTA = ESC # ''[95m''"
definition BRIGHT_CYAN :: string where "BRIGHT_CYAN = ESC # ''[96m''"
definition BRIGHT_WHITE :: string where "BRIGHT_WHITE = ESC # ''[97m''"
definition ENDC :: string where "ENDC = ESC # ''[0m''"

lemmas color_defs =
  BLACK_def RED_def GREEN_def YELLOW_def BLUE_def MAGENTA_def CYAN_def WHITE_def
  BRIGHT_RED_def BRIGHT_GREEN_def BRIGHT_YELLOW_def BRIGHT_BLUE_def BRIGHT_MAGENTA_def
  BRIGHT_CYAN_def BRIGHT_WHITE_def ENDC_def

section \<open>\<open>LocalizedResource._format_string\<close>\<close>

text \<open>
  The statements of the method after its assertion: the replacement of the two characters
  backslash, \<open>n\<close> by a newline, then the sixteen colour tags, one \<open>replace\<close> after the other.
\<close>

definition format_output :: "string \<Rightarrow> string" where
  "format_output msg =
     (let output = replace [backslash, CHR ''n''] [newline] msg;
          output = replace ''{{COLOR_BLACK}}'' BLACK output;
          output = replace ''{{COLOR_RED}}'' RED output;
          output = replace ''{{COLOR_GREEN}}'' GREEN output;
          output = replace ''{{COLOR_YELLOW}}'' YELLOW output;
          output = replace ''{{COLOR_BLUE}}'' BLUE output;
          output = replace ''{{COLOR_MAGENTA}}'' MAGENTA output;
          output = replace ''{{COLOR_CYAN}}'' CYAN output;
          output = replace ''{{COLOR_WHITE}}'' WHITE output;
          output = replace ''{{COLOR_BRIGHT_RED}}'' BRIGHT_RED output;
          output = replace ''{{COLOR_BRIGHT_GREEN}}'' BRIGHT_GREEN output;
          output = replace ''{{COLOR_BRIGHT_YELLOW}}'' BRIGHT_YELLOW output;
          output = replace ''{{COLOR_BRIGHT_BLUE}}'' BRIGHT_BLUE output;
          output = replace ''{{COLOR_BRIGHT_MAGENTA}}'' BRIGHT_MAGENTA output;
          output = replace ''{{COLOR_BRIGHT_CYAN}}'' BRIGHT_CYAN output;
          output = replace ''{{COLOR_BRIGHT_WHITE}}'' BRIGHT_WHITE output;
          output = replace ''{{COLOR_NONE}}'' ENDC output
      in output)"

text \<open>
  The method itself: \<open>assert type(msg) is str\<close> fails on \<open>None\<close>, the only other value the
  callers can pass.
\<close>

definition format_string :: "string option \<Rightarrow> exception + string" where
  "format_string msg =
     (case msg of
        None \<Rightarrow> Inl AssertionError
      | Some m \<Rightarrow> Inr (format_output m))"

section \<open>Standard-library functions the program calls\<close>

text \<open>
  The program is Python 3 on a POSIX system, run with assertions enabled. The library
  functions it calls are modelled as the library defines them.
\<close>

subsection \<open>\<open>str\<close> of the code argument\<close>

text \<open>
  \<open>get_error_msg\<close> asserts \<open>type(code) is str or type(code) is int\<close>; the type of its
  argument has exactly these two cases.
\<close>

datatype code = CodeStr string | CodeInt int

fun str_nat :: "nat \<Rightarrow> string" where
  "str_nat n =
     (if n < 10 then [''0123456789'' ! n]
      else str_nat (n div 10) @ [''0123456789'' ! (n mod 10)])"

declare str_nat.simps [simp del]

definition str_int :: "int \<Rightarrow> string" where
  "str_int i = (if i < 0 then CHR ''-'' # str_nat (nat (- i)) else str_nat (nat i))"

fun str :: "code \<Rightarrow> string" where
  "str (CodeStr s) = s"
| "str (CodeInt i) = str_int i"

subsection \<open>\<open>str.lower\<close>\<close>

definition lower_char :: "char \<Rightarrow> char" where
  "lower_char c =
     (let n = (of_char c :: nat) in
      if 65 \<le> n \<and> n \<le> 90 then char_of (n + 32)
      else if 192 \<le> n \<and> n \<le> 214 then char_of (n + 32)
      else if 216 \<le> n \<and> n \<le> 222 then char_of (n + 32)
      else c)"

definition lower :: "string \<Rightarrow> string" where
  "lower s = map lower_char s"

subsection \<open>\<open>os.path\<close>\<close>

text \<open>\<open>posixpath.join\<close> of two components.\<close>

definition join :: "string \<Rightarrow> string \<Rightarrow> string" where
  "join a b =
     (if prefix ''/'' b then b
      else if a = [] \<or> suffix ''/'' a then a @ b
      else a @ ''/'' @ b)"

text \<open>
  What the program reads of the machine it runs on: \<open>os.path.exists\<close>,
  \<open>os.path.abspath\<close> (which depends on the working directory), the text of a file that
  \<open>open\<close> can read (\<open>None\<close> when \<open>open\<close> raises \<open>OSError\<close>), and the result of the
  library's INI reader on a text: the DEFAULT section and the named sections, or the
  exception the reader raises on a malformed text.
\<close>

type_synonym sectiondict = "string \<rightharpoonup> string option"

record platform =
  path_exists :: "string \<Rightarrow> bool"
  path_abspath :: "string \<Rightarrow> string"
  open_text :: "string \<rightharpoonup> string"
  ini_read :: "string \<Rightarrow> exception + (sectiondict \<times> (string \<rightharpoonup> sectiondict))"

subsection \<open>\<open>configparser\<close>\<close>

text \<open>
  The object: the three attributes \<open>__init__\<close> assigns, and the two dictionaries of the
  inherited parser (\<open>_defaults\<close> and \<open>_sections\<close>). A key read without a value maps to
  \<open>None\<close> (the parser is created with \<open>allow_no_value=True\<close>).
\<close>

record LocalizedResource =
  resources_d :: string
  resources_n :: string
  resources_p :: string
  defaults :: sectiondict
  sections :: "string \<rightharpoonup> sectiondict"

definition default_section :: string where
  "default_section = ''DEFAULT''"

definition MAX_INTERPOLATION_DEPTH :: nat where
  "MAX_INTERPOLATION_DEPTH = 10"

definition optionxform :: "string \<Rightarrow> string" where
  "optionxform optionstr = lower optionstr"

definition has_section :: "LocalizedResource \<Rightarrow> string \<Rightarrow> bool" where
  "has_section self section = (section \<in> dom (sections self))"

definition has_option :: "LocalizedResource \<Rightarrow> string \<Rightarrow> string \<Rightarrow> bool" where
  "has_option self section option =
     (if section = [] \<or> section = default_section
      then optionxform option \<in> dom (defaults self)
      else case sections self section of
             None \<Rightarrow> False
           | Some sectiondict \<Rightarrow>
               optionxform option \<in> dom sectiondict \<or> optionxform option \<in> dom (defaults self))"

text \<open>\<open>_unify_values\<close> without \<open>vars\<close>: the section's dictionary chained before the defaults.\<close>

definition unify_values :: "LocalizedResource \<Rightarrow> string \<Rightarrow> exception + sectiondict" where
  "unify_values self section =
     (case sections self section of
        None \<Rightarrow> if section = default_section then Inr (defaults self) else Inl NoSectionError
      | Some sectiondict \<Rightarrow> Inr (defaults self ++ sectiondict))"

text \<open>\<open>rest.find("%")\<close>: the index of the first occurrence, \<open>None\<close> for -1.\<close>

definition find_char :: "char \<Rightarrow> string \<Rightarrow> nat option" where
  "find_char c s = (if c \<in> set s then Some (length (takeWhile (\<lambda>x. x \<noteq> c) s)) else None)"

text \<open>
  \<open>_KEYCRE.match(rest)\<close> for the pattern \<open>%\(([^)]+)\)s\<close>: the group and the end of the
  match.
\<close>

definition KEYCRE_match :: "string \<Rightarrow> (string \<times> nat) option" where
  "KEYCRE_match s =
     (if take 2 s = ''%('' then
        (let body = drop 2 s;
             name = takeWhile (\<lambda>x. x \<noteq> CHR '')'') body;
             tail = drop (length name) body
         in if name = [] then None
            else if take 2 tail = '')s'' then Some (name, length name + 4)
            else None)
      else None)"

lemma takeWhile_neq_less: "c \<in> set s \<Longrightarrow> length (takeWhile (\<lambda>x. x \<noteq> c) s) < length s"
  by (induction s) auto

lemma find_char_Some: "find_char c s = Some p \<Longrightarrow> p < length s"
  by (auto simp: find_char_def takeWhile_neq_less split: if_splits)

text \<open>
  \<open>BasicInterpolation._interpolate_some\<close>; the list \<open>accum\<close> is kept joined. Each turn of
  its \<open>while\<close> loop is a call at the same depth.
\<close>

function interpolate_some :: "sectiondict \<Rightarrow> string \<Rightarrow> string \<Rightarrow> nat \<Rightarrow> exception + string" where
  "interpolate_some m accum rest depth =
     (if depth > MAX_INTERPOLATION_DEPTH then Inl InterpolationDepthError
      else if rest = [] then Inr accum
      else case find_char (CHR ''%'') rest of
        None \<Rightarrow> Inr (accum @ rest)
      | Some p \<Rightarrow>
          if take 1 (drop (Suc p) rest) = ''%''
          then interpolate_some m (accum @ take p rest @ ''%'') (drop (p + 2) rest) depth
          else if take 1 (drop (Suc p) rest) = ''(''
          then (case KEYCRE_match (drop p rest) of
                  None \<Rightarrow> Inl InterpolationSyntaxError
                | Some (name, e) \<Rightarrow>
                    (case m (optionxform name) of
                       None \<Rightarrow> Inl InterpolationMissingOptionError
                     | Some None \<Rightarrow> Inl TypeError
                     | Some (Some v) \<Rightarrow>
                         if CHR ''%'' \<in> set v
                         then (case interpolate_some m (accum @ take p rest) v (depth + 1) of
                                 Inl ex \<Rightarrow> Inl ex
                               | Inr accum' \<Rightarrow> interpolate_some m accum' (drop (p + e) rest) depth)
                         else interpolate_some m (accum @ take p rest @ v) (drop (p + e) rest) depth))
          else Inl InterpolationSyntaxError)"
  by pat_completeness auto

termination
  apply (relation "measures [\<lambda>(m, accum, rest, depth). Suc MAX_INTERPOLATION_DEPTH - depth,
                             \<lambda>(m, accum, rest, depth). length rest]")
  apply (auto dest: find_char_Some simp: KEYCRE_match_def Let_def split: if_splits)
  done

declare interpolate_some.simps [simp del]

definition before_get :: "sectiondict \<Rightarrow> string \<Rightarrow> exception + string" where
  "before_get d val = interpolate_some d [] val 1"

text \<open>
  \<open>get(section, option)\<close> with the defaults \<open>raw=False\<close>, \<open>vars=None\<close> and no fallback. The
  result is \<open>None\<close> for a key without a value, which is returned as it is.
\<close>

definition get :: "LocalizedResource \<Rightarrow> string \<Rightarrow> string \<Rightarrow> exception + string option" where
  "get self section option =
     (case unify_values self section of
        Inl ex \<Rightarrow> Inl ex
      | Inr d \<Rightarrow>
          (case d (optionxform option) of
             None \<Rightarrow> Inl NoOptionError
           | Some None \<Rightarrow> Inr None
           | Some (Some val) \<Rightarrow>
               (case before_get d val of
                  Inl ex \<Rightarrow> Inl ex
                | Inr s \<Rightarrow> Inr (Some s))))"

text \<open>
  \<open>read(filename)\<close> on the new, empty parser: a file that cannot be opened is skipped
  silently, an exception of the reader propagates.
\<close>

definition read :: "platform \<Rightarrow> LocalizedResource \<Rightarrow> string \<Rightarrow> exception + LocalizedResource" where
  "read os self filename =
     (case open_text os filename of
        None \<Rightarrow> Inr self
      | Some text \<Rightarrow>
          (case ini_read os text of
             Inl ex \<Rightarrow> Inl ex
           | Inr (d, s) \<Rightarrow> Inr (self\<lparr>defaults := d, sections := s\<rparr>)))"

section \<open>\<open>LocalizedResource\<close>\<close>

definition read_resources :: "platform \<Rightarrow> LocalizedResource \<Rightarrow> exception + LocalizedResource" where
  "read_resources os self =
     (if \<not> path_exists os (resources_p self)
      then Inl (LocalizationError_init
                 (''Cannot locate resource file: '' @ path_abspath os (resources_p self)) (Some 1))
      else read os self (resources_p self))"

text \<open>
  \<open>__init__(self, resources_d, prefix, language="english")\<close>: an omitted \<open>language\<close> is
  \<open>None\<close> here. The three arguments are strings.
\<close>

definition init :: "platform \<Rightarrow> string \<Rightarrow> string \<Rightarrow> string option \<Rightarrow> exception + LocalizedResource" where
  "init os resources_d' prefix' language =
     (let language' = (case language of None \<Rightarrow> ''english'' | Some l \<Rightarrow> l) in
      if \<not> path_exists os resources_d'
      then Inl (LocalizationError_init
                 (''Resources directory '' @ resources_d' @ '' does not exist.'') None)
      else
        (let resources_n' = prefix' @ ''_'' @ language' @ ''.ini'';
             self = \<lparr>resources_d = resources_d',
                     resources_n = resources_n',
                     resources_p = join resources_d' resources_n',
                     defaults = Map.empty,
                     sections = Map.empty\<rparr>
         in read_resources os self))"

text \<open>
  The two lookups. Each returns its result, or the exception it raises, together with the
  object after the call.
\<close>

definition get_error_msg :: "LocalizedResource \<Rightarrow> code \<Rightarrow> (exception + string) \<times> LocalizedResource" where
  "get_error_msg self code =
     (if \<not> has_section self ''error_codes''
      then (Inl (LocalizationError_init
                  (''Localization file '' @ resources_p self
                    @ '' is corrupt: It is missing the error_codes section.'') (Some 2)), self)
      else if \<not> has_option self ''error_codes'' (str code)
      then (Inl (LocalizationError_init
                  (''Localization file '' @ resources_p self
                    @ '' is corrupt: It is missing the error_code: '' @ str code @ ''.'') (Some 3)), self)
      else
        (case get self ''error_codes'' (str code) of
           Inl ex \<Rightarrow> (Inl ex, self)
         | Inr msg \<Rightarrow> (format_string msg, self)))"

definition get_msg :: "LocalizedResource \<Rightarrow> string \<Rightarrow> (exception + string) \<times> LocalizedResource" where
  "get_msg self message_key =
     (if \<not> has_section self ''messages''
      then (Inl (LocalizationError_init
                  (''Localization file '' @ resources_p self
                    @ '' is corrupt: It is missing the messages section.'') (Some 4)), self)
      else if \<not> has_option self ''messages'' message_key
      then (Inl (LocalizationError_init
                  (''Localization file '' @ resources_p self
                    @ '' is corrupt: It is missing the message: '' @ message_key @ ''.'') (Some 5)), self)
      else
        (case get self ''messages'' message_key of
           Inl ex \<Rightarrow> (Inl ex, self)
         | Inr msg \<Rightarrow> (format_string msg, self)))"

text \<open>The life of an object: any sequence of calls of its two public methods.\<close>

datatype call = Get_error_msg code | Get_msg string

fun call_method :: "LocalizedResource \<Rightarrow> call \<Rightarrow> (exception + string) \<times> LocalizedResource" where
  "call_method self (Get_error_msg code) = get_error_msg self code"
| "call_method self (Get_msg message_key) = get_msg self message_key"


section \<open>Example resource files\<close>

text \<open>
  The file of the module's documentation, with its two sections; a file whose key
  \<open>102\<close> is written without a value; and a file whose message holds a percent sign.
\<close>

definition resource_documented :: LocalizedResource where
  "resource_documented =
     \<lparr>resources_d = ''/path/to/resource/'',
      resources_n = ''myapp_english.ini'',
      resources_p = ''/path/to/resource/myapp_english.ini'',
      defaults = Map.empty,
      sections =
        [''error_codes'' \<mapsto> [''101'' \<mapsto> Some ''This is error 101'', ''102'' \<mapsto> Some ''This is error 102''],
         ''messages'' \<mapsto> [''hello'' \<mapsto> Some ''Hello world.'',
                          ''do_quit'' \<mapsto> Some ''Do you really want to quit?'']]\<rparr>"


definition resource_percent :: LocalizedResource where
  "resource_percent =
     \<lparr>resources_d = ''/path/to/resource/'',
      resources_n = ''myapp_english.ini'',
      resources_p = ''/path/to/resource/myapp_english.ini'',
      defaults = Map.empty,
      sections = [''messages'' \<mapsto> [''progress'' \<mapsto> Some ''{percent}% done'']]\<rparr>"

text \<open>
  A machine with the directory \<open>/res\<close> and the file \<open>/res/app_english.ini\<close> in it, whose
  text the reader parses to the entry of the end-to-end example.
\<close>

definition platform_example :: platform where
  "platform_example =
     \<lparr>path_exists = (\<lambda>p. p = ''/res'' \<or> p = ''/res/app_english.ini''),
      path_abspath = (\<lambda>p. if prefix ''/'' p then p else ''/home/user/'' @ p),
      open_text = [''/res/app_english.ini'' \<mapsto>
                    ''[error_codes]'' @ [newline]
                    @ ''101=Error {{COLOR_RED}}number {num}{{COLOR_NONE}}'' @ [newline]],
      ini_read = (\<lambda>text.
        if text = ''[error_codes]'' @ [newline]
                    @ ''101=Error {{COLOR_RED}}number {num}{{COLOR_NONE}}'' @ [newline]
        then Inr (Map.empty,
                  [''error_codes'' \<mapsto>
                     [''101'' \<mapsto> Some ''Error {{COLOR_RED}}number {num}{{COLOR_NONE}}'']])
        else Inl (ParsingError text))\<rparr>"

text \<open>The object that construction returns on that machine for the prefix \<open>app\<close>.\<close>

definition resource_app :: LocalizedResource where
  "resource_app =
     \<lparr>resources_d = ''/res'',
      resources_n = ''app_english.ini'',
      resources_p = ''/res/app_english.ini'',
      defaults = Map.empty,
      sections = [''error_codes'' \<mapsto>
                   [''101'' \<mapsto> Some ''Error {{COLOR_RED}}number {num}{{COLOR_NONE}}'']]\<rparr>"

section \<open>Auxiliary notions\<close>

text \<open>
  Notions used in the proofs about \<open>replace\<close>. Two strings are comparable when one is a
  prefix of the other. A pattern \<open>old\<close> is clear of \<open>t\<close> when no proper suffix of \<open>old\<close> can
  start an occurrence of \<open>t\<close>, and \<open>t\<close> passes \<open>old\<close> when replacing \<open>old\<close> around \<open>t\<close>
  leaves \<open>t\<close> alone. A colour tag is written from its name; the table lists the sixteen
  names in the order of the method's statements, with the constants they are replaced by.
\<close>

definition comparable :: "string \<Rightarrow> string \<Rightarrow> bool" where
  "comparable x y = (prefix x y \<or> prefix y x)"

definition clear_of :: "string \<Rightarrow> string \<Rightarrow> bool" where
  "clear_of old t = (\<forall>u v. old = u @ v \<longrightarrow> u \<noteq> [] \<longrightarrow> v \<noteq> [] \<longrightarrow> \<not> comparable v t)"

definition passes :: "string \<Rightarrow> string \<Rightarrow> bool" where
  "passes old t = (\<forall>new a b. replace old new (a @ t @ b) = replace old new a @ t @ replace old new b)"

definition color_tag :: "string \<Rightarrow> string" where
  "color_tag name = ''{{COLOR_'' @ name @ ''}}''"

definition color_table :: "(string \<times> string) list" where
  "color_table =
     [(''BLACK'', BLACK), (''RED'', RED), (''GREEN'', GREEN), (''YELLOW'', YELLOW),
      (''BLUE'', BLUE), (''MAGENTA'', MAGENTA), (''CYAN'', CYAN), (''WHITE'', WHITE),
      (''BRIGHT_RED'', BRIGHT_RED), (''BRIGHT_GREEN'', BRIGHT_GREEN),
      (''BRIGHT_YELLOW'', BRIGHT_YELLOW), (''BRIGHT_BLUE'', BRIGHT_BLUE),
      (''BRIGHT_MAGENTA'', BRIGHT_MAGENTA), (''BRIGHT_CYAN'', BRIGHT_CYAN),
      (''BRIGHT_WHITE'', BRIGHT_WHITE), (''NONE'', ENDC)]"

fun apply_table :: "(string \<times> string) list \<Rightarrow> string \<Rightarrow> string" where
  "apply_table [] s = s"
| "apply_table ((name, esc) # tbl) s = apply_table tbl (replace (color_tag name) esc s)"

definition inert :: "string \<times> string \<Rightarrow> bool" where
  "inert p = (case p of (name, esc) \<Rightarrow>
     CHR ''{'' \<notin> set name \<and> CHR ''}'' \<notin> set name \<and> ESC \<notin> set name
     \<and> esc \<noteq> [] \<and> hd esc = ESC \<and> CHR ''{'' \<notin> set esc)"

text \<open>The result of a lookup whose key is found, from the stored value.\<close>

definition found_result :: "sectiondict \<Rightarrow> string option \<Rightarrow> exception + string" where
  "found_result d v =
     (case v of
        None \<Rightarrow> Inl AssertionError
      | Some val \<Rightarrow>
          (case before_get d val of
             Inl ex \<Rightarrow> Inl ex
           | Inr s \<Rightarrow> Inr (format_output s)))"

section \<open>Properties of \<open>replace\<close>\<close>

lemma replace_skip:
  "old \<noteq> [] \<Longrightarrow> \<not> prefix old (c # s) \<Longrightarrow> replace old new (c # s) = c # replace old new s"
  by simp

lemma replace_skip_chars:
  "old \<noteq> [] \<Longrightarrow> hd old \<notin> set w \<Longrightarrow> replace old new (w @ s) = w @ replace old new s"
proof (induction w)
  case Nil
  then show ?case by simp
next
  case (Cons c w)
  from Cons.prems have "\<not> prefix old (c # w @ s)"
    by (cases old) auto
  with Cons show ?case by simp
qed

lemma prefix_straddle:
  assumes "prefix old (a @ r)" and "length a < length old"
  shows "\<exists>v. old = a @ v \<and> v \<noteq> [] \<and> prefix v r"
proof -
  from assms(1) obtain z where z: "a @ r = old @ z" by (auto simp: prefix_def)
  from assms(2) z obtain v where "old = a @ v" "v \<noteq> []"
    by (auto simp: append_eq_append_conv2)
  with z show ?thesis by (auto simp: prefix_def)
qed

lemma prefix_within:
  "prefix old (a @ r) \<Longrightarrow> length old \<le> length a \<Longrightarrow> prefix old a"
  by (auto simp: prefix_def append_eq_append_conv2)

lemma prefix_append_comparable: "prefix v (t @ b) \<Longrightarrow> comparable v t"
  by (auto simp: comparable_def prefix_append)

lemma replace_barrier:
  assumes ne: "old \<noteq> []"
    and clear: "clear_of old t"
    and head: "\<And>b. replace old new (t @ b) = t' @ replace old new b"
  shows "replace old new (a @ t @ b) = replace old new a @ t' @ replace old new b"
proof (induction a rule: length_induct)
  case (1 a)
  show ?case
  proof (cases a)
    case Nil
    then show ?thesis using head ne by (cases old) auto
  next
    case (Cons c cs)
    show ?thesis
    proof (cases "prefix old (a @ t @ b)")
      case True
      have len: "length old \<le> length a"
      proof (rule ccontr)
        assume "\<not> length old \<le> length a"
        then have "length a < length old" by simp
        from prefix_straddle[OF True this] obtain v
          where v: "old = a @ v" "v \<noteq> []" "prefix v (t @ b)" by blast
        from v(3) have "comparable v t" by (rule prefix_append_comparable)
        moreover from Cons have "a \<noteq> []" by simp
        ultimately show False using clear v(1,2) by (auto simp: clear_of_def)
      qed
      with True have pa: "prefix old a" by (rule prefix_within)
      from len ne Cons have shorter: "length (drop (length old) a) < length a"
        by (cases old) auto
      from 1 shorter
      have IH: "replace old new (drop (length old) a @ t @ b)
                = replace old new (drop (length old) a) @ t' @ replace old new b"
        by blast
      have d: "drop (length old) (a @ t @ b) = drop (length old) a @ t @ b"
        using len by simp
      have l: "replace old new (a @ t @ b) = new @ replace old new (drop (length old) (a @ t @ b))"
        using True ne Cons by simp
      have r: "replace old new a = new @ replace old new (drop (length old) a)"
        using pa ne Cons by simp
      show ?thesis by (simp only: l r d IH append_assoc)
    next
      case False
      then have npa: "\<not> prefix old a" by (auto simp: prefix_def)
      from 1 Cons have IH: "replace old new (cs @ t @ b) = replace old new cs @ t' @ replace old new b"
        by simp
      from False npa ne Cons IH show ?thesis by simp
    qed
  qed
qed

lemma comparable_Cons: "comparable (x # xs) (y # ys) = (x = y \<and> comparable xs ys)"
  by (auto simp: comparable_def)

lemma clear_of_color_tag:
  assumes "CHR ''{'' \<notin> set X"
  shows "clear_of (color_tag X) (CHR ''{'' # CHR ''{'' # r)"
  unfolding clear_of_def
proof (intro allI impI)
  fix u v
  assume split: "color_tag X = u @ v" and u: "u \<noteq> []" and v: "v \<noteq> []"
  from u obtain c u' where u_def: "u = c # u'" by (cases u) auto
  from v obtain e v' where v_def: "v = e # v'" by (cases v) auto
  show "\<not> comparable v (CHR ''{'' # CHR ''{'' # r)"
  proof (cases u')
    case Nil
    with split u_def have "v = CHR ''{'' # ''COLOR_'' @ X @ ''}}''"
      by (auto simp: color_tag_def)
    then show ?thesis by (simp add: comparable_Cons)
  next
    case (Cons d u'')
    with split u_def have "''COLOR_'' @ X @ ''}}'' = u'' @ v"
      by (auto simp: color_tag_def)
    then have "set v \<subseteq> set (''COLOR_'' @ X @ ''}}'')"
      by (metis set_append sup_ge2)
    with assms v_def have "e \<noteq> CHR ''{''" by auto
    with v_def show ?thesis by (simp add: comparable_Cons)
  qed
qed

lemma name_prefix_eq:
  "CHR ''}'' \<notin> set X \<Longrightarrow> CHR ''}'' \<notin> set N
    \<Longrightarrow> prefix (X @ CHR ''}'' # r) (N @ CHR ''}'' # r') \<Longrightarrow> X = N"
proof (induction X arbitrary: N)
  case Nil
  then show ?case by (cases N) auto
next
  case (Cons x X)
  then show ?case by (cases N) auto
qed

lemma head_color_tag:
  assumes X: "CHR ''{'' \<notin> set X" "CHR ''}'' \<notin> set X"
    and N: "CHR ''{'' \<notin> set N" "CHR ''}'' \<notin> set N"
    and neq: "N \<noteq> X"
  shows "replace (color_tag X) new (color_tag N @ b) = color_tag N @ replace (color_tag X) new b"
proof -
  have ne: "color_tag X \<noteq> []" by (simp add: color_tag_def)
  have hd: "hd (color_tag X) = CHR ''{''" by (simp add: color_tag_def)
  have first: "\<not> prefix (color_tag X) (color_tag N @ b)"
  proof
    assume "prefix (color_tag X) (color_tag N @ b)"
    then have "prefix (X @ CHR ''}'' # ''}'') (N @ CHR ''}'' # CHR ''}'' # b)"
      by (simp add: color_tag_def)
    with X(2) N(2) have "X = N" by (rule name_prefix_eq)
    with neq show False by simp
  qed
  have second: "\<not> prefix (color_tag X) (CHR ''{'' # ''COLOR_'' @ N @ ''}}'' @ b)"
    by (simp add: color_tag_def)
  have rest: "replace (color_tag X) new ((''COLOR_'' @ N @ ''}}'') @ b)
               = (''COLOR_'' @ N @ ''}}'') @ replace (color_tag X) new b"
    using N by (intro replace_skip_chars[OF ne]) (simp add: hd)
  have "replace (color_tag X) new (color_tag N @ b)
          = CHR ''{'' # replace (color_tag X) new (CHR ''{'' # ''COLOR_'' @ N @ ''}}'' @ b)"
    using replace_skip[OF ne, of "CHR ''{''" "CHR ''{'' # ''COLOR_'' @ N @ ''}}'' @ b" new] first
    by (simp add: color_tag_def)
  also have "\<dots> = CHR ''{'' # CHR ''{'' # replace (color_tag X) new ((''COLOR_'' @ N @ ''}}'') @ b)"
    using replace_skip[OF ne second] by simp
  also have "\<dots> = color_tag N @ replace (color_tag X) new b"
    by (simp only: rest) (simp add: color_tag_def)
  finally show ?thesis .
qed

lemma passes_color_tag:
  assumes "CHR ''{'' \<notin> set X" "CHR ''}'' \<notin> set X" "CHR ''{'' \<notin> set N" "CHR ''}'' \<notin> set N" "N \<noteq> X"
  shows "passes (color_tag X) (color_tag N)"
  unfolding passes_def
proof (intro allI)
  fix new a b
  have c: "clear_of (color_tag X) (color_tag N)"
    using clear_of_color_tag[OF assms(1), of "''COLOR_'' @ N @ ''}}''"] by (simp add: color_tag_def)
  show "replace (color_tag X) new (a @ color_tag N @ b)
          = replace (color_tag X) new a @ color_tag N @ replace (color_tag X) new b"
    by (rule replace_barrier[OF _ c head_color_tag[OF assms]]) (simp add: color_tag_def)
qed

lemma replace_self:
  assumes "old \<noteq> []" "clear_of old old"
  shows "replace old new (a @ old @ b) = replace old new a @ new @ replace old new b"
proof (rule replace_barrier[OF assms])
  fix b
  from assms(1) show "replace old new (old @ b) = new @ replace old new b"
    by (cases old) auto
qed

lemma replace_color_tag:
  assumes "CHR ''{'' \<notin> set X"
  shows "replace (color_tag X) new (a @ color_tag X @ b)
          = replace (color_tag X) new a @ new @ replace (color_tag X) new b"
proof (rule replace_self)
  show "color_tag X \<noteq> []" by (simp add: color_tag_def)
  show "clear_of (color_tag X) (color_tag X)"
    using clear_of_color_tag[OF assms, of "''COLOR_'' @ X @ ''}}''"] by (simp add: color_tag_def)
qed

lemma passes_inert:
  assumes "old \<noteq> []" "t \<noteq> []" "hd t \<notin> set old" "hd old \<notin> set t"
  shows "passes old t"
  unfolding passes_def
proof (intro allI)
  fix new a b
  have c: "clear_of old t"
    unfolding clear_of_def
  proof (intro allI impI)
    fix u v
    assume "old = u @ v" "u \<noteq> []" "v \<noteq> []"
    with assms(2,3) show "\<not> comparable v t"
      by (cases v; cases t) (auto simp: comparable_Cons)
  qed
  show "replace old new (a @ t @ b) = replace old new a @ t @ replace old new b"
    by (rule replace_barrier[OF assms(1) c]) (rule replace_skip_chars[OF assms(1,4)])
qed

section \<open>The formatting transform as a table of replacements\<close>

lemma format_output_table:
  "format_output s = apply_table color_table (replace [backslash, CHR ''n''] [newline] s)"
  by (simp add: format_output_def color_table_def color_tag_def Let_def)

lemma inert_color_table: "list_all inert color_table"
  by (simp add: color_table_def inert_def color_defs ESC_def)

lemma distinct_color_table: "distinct (map fst color_table)"
  by (simp add: color_table_def)

lemma apply_table_passes:
  "list_all (\<lambda>(name, esc). passes (color_tag name) t) tbl
    \<Longrightarrow> apply_table tbl (a @ t @ b) = apply_table tbl a @ t @ apply_table tbl b"
proof (induction tbl arbitrary: a b)
  case Nil
  then show ?case by simp
next
  case (Cons p tbl)
  obtain name esc where p: "p = (name, esc)" by (cases p)
  from Cons.prems p have "passes (color_tag name) t" by simp
  then have "replace (color_tag name) esc (a @ t @ b)
              = replace (color_tag name) esc a @ t @ replace (color_tag name) esc b"
    by (simp add: passes_def)
  moreover from Cons.prems have "list_all (\<lambda>(name, esc). passes (color_tag name) t) tbl"
    by simp
  ultimately show ?case using Cons.IH p by simp
qed

lemma passes_escape:
  assumes "inert (name, esc)" "inert (name', esc')"
  shows "passes (color_tag name) esc'"
proof (rule passes_inert)
  show "color_tag name \<noteq> []" by (simp add: color_tag_def)
  from assms(2) show "esc' \<noteq> []" by (simp add: inert_def)
  from assms show "hd esc' \<notin> set (color_tag name)"
    by (simp add: inert_def color_tag_def ESC_def)
  from assms(2) show "hd (color_tag name) \<notin> set esc'"
    by (simp add: inert_def color_tag_def)
qed

lemma apply_table_escape:
  assumes "list_all inert tbl" "inert (name', esc')"
  shows "apply_table tbl (a @ esc' @ b) = apply_table tbl a @ esc' @ apply_table tbl b"
proof (rule apply_table_passes)
  from assms show "list_all (\<lambda>(name, esc). passes (color_tag name) esc') tbl"
    by (auto simp: list_all_iff intro: passes_escape)
qed

lemma apply_table_color_tag:
  assumes "distinct (map fst tbl)" "list_all inert tbl" "(name, esc) \<in> set tbl"
  shows "apply_table tbl (a @ color_tag name @ b) = apply_table tbl a @ esc @ apply_table tbl b"
  using assms
proof (induction tbl arbitrary: a b)
  case Nil
  then show ?case by simp
next
  case (Cons p tbl)
  obtain name' esc' where p: "p = (name', esc')" by (cases p)
  from Cons.prems(2) p have ip: "inert (name', esc')" and it: "list_all inert tbl" by simp_all
  show ?case
  proof (cases "name' = name")
    case True
    with Cons.prems(1,3) p have e: "esc' = esc"
      by (auto simp: image_iff)
    from Cons.prems(3) ip it p e have ie: "inert (name, esc)" by (auto simp: list_all_iff)
    have "replace (color_tag name) esc (a @ color_tag name @ b)
            = replace (color_tag name) esc a @ esc @ replace (color_tag name) esc b"
      using ie by (intro replace_color_tag) (simp add: inert_def)
    with True e p show ?thesis
      using apply_table_escape[OF it ie] by simp
  next
    case False
    with Cons.prems(3) p have mem: "(name, esc) \<in> set tbl" by auto
    with it have ie: "inert (name, esc)" by (auto simp: list_all_iff)
    from ip ie False have "passes (color_tag name') (color_tag name)"
      by (intro passes_color_tag) (simp_all add: inert_def)
    then have "replace (color_tag name') esc' (a @ color_tag name @ b)
            = replace (color_tag name') esc' a @ color_tag name @ replace (color_tag name') esc' b"
      by (simp add: passes_def)
    moreover from Cons.prems(1) have "distinct (map fst tbl)" by simp
    ultimately show ?thesis using Cons.IH[OF _ it mem] p by simp
  qed
qed

lemma newline_step_color_tag:
  assumes "backslash \<notin> set name"
  shows "replace [backslash, CHR ''n''] new (a @ color_tag name @ b)
          = replace [backslash, CHR ''n''] new a @ color_tag name @ replace [backslash, CHR ''n''] new b"
proof -
  have "passes [backslash, CHR ''n''] (color_tag name)"
    using assms by (intro passes_inert) (simp_all add: color_tag_def backslash_def)
  then show ?thesis by (simp add: passes_def)
qed

lemma format_output_color_tag:
  assumes "(name, esc) \<in> set color_table"
  shows "format_output (a @ color_tag name @ b) = format_output a @ esc @ format_output b"
proof -
  from assms have "backslash \<notin> set name"
    by (auto simp: color_table_def backslash_def)
  then show ?thesis
    by (simp add: format_output_table newline_step_color_tag
        apply_table_color_tag[OF distinct_color_table inert_color_table assms])
qed

lemma format_output_other_tag:
  assumes "CHR ''{'' \<notin> set name" "CHR ''}'' \<notin> set name" "backslash \<notin> set name"
    and "name \<notin> fst ` set color_table"
  shows "format_output (a @ color_tag name @ b) = format_output a @ color_tag name @ format_output b"
proof -
  have "list_all (\<lambda>(name', esc). passes (color_tag name') (color_tag name)) color_table"
    unfolding list_all_iff
  proof (intro ballI, clarify)
    fix name' esc assume mem: "(name', esc) \<in> set color_table"
    with inert_color_table have "inert (name', esc)" by (auto simp: list_all_iff)
    moreover from mem assms(4) have "name \<noteq> name'" by (auto simp: image_iff)
    ultimately show "passes (color_tag name') (color_tag name)"
      using assms(1,2) by (intro passes_color_tag) (simp_all add: inert_def)
  qed
  then show ?thesis
    by (simp add: format_output_table newline_step_color_tag[OF assms(3)] apply_table_passes)
qed

lemma format_output_newline:
  "format_output (a @ [backslash, CHR ''n''] @ b) = format_output a @ [newline] @ format_output b"
proof -
  have c: "clear_of [backslash, CHR ''n''] [backslash, CHR ''n'']"
    by (auto simp: clear_of_def Cons_eq_append_conv comparable_Cons backslash_def)
  have step: "replace [backslash, CHR ''n''] [newline] (a @ [backslash, CHR ''n''] @ b)
          = replace [backslash, CHR ''n''] [newline] a @ [newline] @ replace [backslash, CHR ''n''] [newline] b"
    by (rule replace_self[OF _ c]) simp
  have "list_all (\<lambda>(name, esc). passes (color_tag name) [newline]) color_table"
    unfolding list_all_iff
  proof (intro ballI, clarify)
    fix name esc assume "(name, esc) \<in> set color_table"
    then have "newline \<notin> set name" by (auto simp: color_table_def newline_def)
    then show "passes (color_tag name) [newline]"
      by (intro passes_inert) (simp_all add: color_tag_def newline_def)
  qed
  then show ?thesis
    by (simp only: format_output_table step apply_table_passes)
qed

section \<open>The formatting transform on concrete templates\<close>

text \<open>
  C4. The template \<open>{{COLOR_RED}}Hello {name}{{COLOR_NONE}}\<close> is formatted to the red escape
  sequence (the character 27, then \<open>[31m\<close>), then \<open>Hello {name}\<close> with the placeholder as
  it was, then the reset sequence (the character 27, then \<open>[0m\<close>).
\<close>

theorem format_string_red_hello:
  "format_string (Some ''{{COLOR_RED}}Hello {name}{{COLOR_NONE}}'')
     = Inr (CHR 0x1B # ''[31m'' @ ''Hello {name}'' @ CHR 0x1B # ''[0m'')"
  by (simp add: format_string_def format_output_def color_defs ESC_def backslash_def newline_def)

text \<open>
  C5. Every occurrence of the two characters backslash, \<open>n\<close> in the input becomes one
  newline character: wherever the pair stands, the output is the formatted text before it,
  a newline, and the formatted text after it. In particular \<open>line1\<close>, backslash, \<open>n\<close>,
  \<open>line2\<close> is formatted to \<open>line1\<close>, a newline, \<open>line2\<close>.
\<close>

theorem format_string_newline:
  "format_string (Some (a @ [backslash, CHR ''n''] @ b))
     = Inr (format_output a @ [newline] @ format_output b)
   \<and> format_string (Some (''line1'' @ [backslash, CHR ''n''] @ ''line2''))
     = Inr (''line1'' @ [newline] @ ''line2'')"
proof -
  have plain: "format_output ''line1'' = ''line1''" "format_output ''line2'' = ''line2''"
    by (simp_all add: format_output_def backslash_def)
  show ?thesis
    by (simp only: format_string_def option.case format_output_newline plain)
qed

section \<open>The colour tags\<close>

text \<open>
  C6. Each of the sixteen tags, wherever it stands in the input as a literal substring, is
  replaced by its escape sequence, the text around it being formatted on its own. A tag
  \<open>{{COLOR_name}}\<close> with any other name (a name without braces and without a backslash)
  is left as it is, wherever it stands; \<open>{{COLOR_ORANGE}}\<close> is returned unchanged. The
  transform returns a string for every string.
\<close>

theorem format_output_tags:
  "format_output (a @ ''{{COLOR_BLACK}}'' @ b) = format_output a @ BLACK @ format_output b
   \<and> format_output (a @ ''{{COLOR_RED}}'' @ b) = format_output a @ RED @ format_output b
   \<and> format_output (a @ ''{{COLOR_GREEN}}'' @ b) = format_output a @ GREEN @ format_output b
   \<and> format_output (a @ ''{{COLOR_YELLOW}}'' @ b) = format_output a @ YELLOW @ format_output b
   \<and> format_output (a @ ''{{COLOR_BLUE}}'' @ b) = format_output a @ BLUE @ format_output b
   \<and> format_output (a @ ''{{COLOR_MAGENTA}}'' @ b) = format_output a @ MAGENTA @ format_output b
   \<and> format_output (a @ ''{{COLOR_CYAN}}'' @ b) = format_output a @ CYAN @ format_output b
   \<and> format_output (a @ ''{{COLOR_WHITE}}'' @ b) = format_output a @ WHITE @ format_output b
   \<and> format_output (a @ ''{{COLOR_BRIGHT_RED}}'' @ b) = format_output a @ BRIGHT_RED @ format_output b
   \<and> format_output (a @ ''{{COLOR_BRIGHT_GREEN}}'' @ b) = format_output a @ BRIGHT_GREEN @ format_output b
   \<and> format_output (a @ ''{{COLOR_BRIGHT_YELLOW}}'' @ b) = format_output a @ BRIGHT_YELLOW @ format_output b
   \<and> format_output (a @ ''{{COLOR_BRIGHT_BLUE}}'' @ b) = format_output a @ BRIGHT_BLUE @ format_output b
   \<and> format_output (a @ ''{{COLOR_BRIGHT_MAGENTA}}'' @ b) = format_output a @ BRIGHT_MAGENTA @ format_output b
   \<and> format_output (a @ ''{{COLOR_BRIGHT_CYAN}}'' @ b) = format_output a @ BRIGHT_CYAN @ format_output b
   \<and> format_output (a @ ''{{COLOR_BRIGHT_WHITE}}'' @ b) = format_output a @ BRIGHT_WHITE @ format_output b
   \<and> format_output (a @ ''{{COLOR_NONE}}'' @ b) = format_output a @ ENDC @ format_output b
   \<and> (CHR ''{'' \<notin> set name \<longrightarrow> CHR ''}'' \<notin> set name \<longrightarrow> backslash \<notin> set name \<longrightarrow>
        name \<notin> {''BLACK'', ''RED'', ''GREEN'', ''YELLOW'', ''BLUE'', ''MAGENTA'', ''CYAN'', ''WHITE'',
                 ''BRIGHT_RED'', ''BRIGHT_GREEN'', ''BRIGHT_YELLOW'', ''BRIGHT_BLUE'',
                 ''BRIGHT_MAGENTA'', ''BRIGHT_CYAN'', ''BRIGHT_WHITE'', ''NONE''} \<longrightarrow>
        format_output (a @ ''{{COLOR_'' @ name @ ''}}'' @ b)
          = format_output a @ ''{{COLOR_'' @ name @ ''}}'' @ format_output b)
   \<and> format_string (Some ''{{COLOR_ORANGE}}'') = Inr ''{{COLOR_ORANGE}}''
   \<and> format_string (Some s) = Inr (format_output s)"
proof -
  have tag: "format_output (a @ (''{{COLOR_'' @ n @ ''}}'') @ b) = format_output a @ esc @ format_output b"
    if "(n, esc) \<in> set color_table" for n esc
    using format_output_color_tag[OF that, of a b] by (simp only: color_tag_def)
  have other: "format_output (a @ ''{{COLOR_'' @ name @ ''}}'' @ b)
          = format_output a @ ''{{COLOR_'' @ name @ ''}}'' @ format_output b"
    if "CHR ''{'' \<notin> set name" "CHR ''}'' \<notin> set name" "backslash \<notin> set name"
      "name \<notin> {''BLACK'', ''RED'', ''GREEN'', ''YELLOW'', ''BLUE'', ''MAGENTA'', ''CYAN'', ''WHITE'',
                 ''BRIGHT_RED'', ''BRIGHT_GREEN'', ''BRIGHT_YELLOW'', ''BRIGHT_BLUE'',
                 ''BRIGHT_MAGENTA'', ''BRIGHT_CYAN'', ''BRIGHT_WHITE'', ''NONE''}"
  proof -
    from that(4) have "name \<notin> fst ` set color_table"
      by (simp add: color_table_def)
    from format_output_other_tag[OF that(1-3) this, of a b] show ?thesis
      by (simp add: color_tag_def)
  qed
  have orange: "format_output ''{{COLOR_ORANGE}}'' = ''{{COLOR_ORANGE}}''"
    by (simp add: format_output_def backslash_def)
  show ?thesis
    using tag[of "''BLACK''" BLACK] tag[of "''RED''" RED] tag[of "''GREEN''" GREEN]
      tag[of "''YELLOW''" YELLOW] tag[of "''BLUE''" BLUE] tag[of "''MAGENTA''" MAGENTA]
      tag[of "''CYAN''" CYAN] tag[of "''WHITE''" WHITE] tag[of "''BRIGHT_RED''" BRIGHT_RED]
      tag[of "''BRIGHT_GREEN''" BRIGHT_GREEN] tag[of "''BRIGHT_YELLOW''" BRIGHT_YELLOW]
      tag[of "''BRIGHT_BLUE''" BRIGHT_BLUE] tag[of "''BRIGHT_MAGENTA''" BRIGHT_MAGENTA]
      tag[of "''BRIGHT_CYAN''" BRIGHT_CYAN] tag[of "''BRIGHT_WHITE''" BRIGHT_WHITE]
      tag[of "''NONE''" ENDC] other orange
    by (simp add: color_table_def format_string_def)
qed

theorem format_output_tags_witness:
  "format_output (''<'' @ ''{{COLOR_PURPLE}}'' @ ''>'') = ''<{{COLOR_PURPLE}}>''"
proof -
  have plain: "format_output ''<'' = ''<''" "format_output ''>'' = ''>''"
    by (simp_all add: format_output_def backslash_def)
  show ?thesis
    using format_output_tags[of "''<''" "''>''" "''PURPLE''"] plain
    by (simp add: backslash_def)
qed

section \<open>The lookups\<close>

lemma interpolate_some_plain:
  "depth \<le> MAX_INTERPOLATION_DEPTH \<Longrightarrow> CHR ''%'' \<notin> set val
    \<Longrightarrow> interpolate_some d accum val depth = Inr (accum @ val)"
  by (subst interpolate_some.simps) (simp add: find_char_def)

lemma before_get_plain: "CHR ''%'' \<notin> set val \<Longrightarrow> before_get d val = Inr val"
  by (simp add: before_get_def interpolate_some_plain MAX_INTERPOLATION_DEPTH_def)

lemma interpolate_some_not_LocalizationError:
  "interpolate_some d accum rest depth \<noteq> Inl (LocalizationError m c)"
proof (induction d accum rest depth rule: interpolate_some.induct)
  case (1 m' accum rest depth)
  show ?case
    apply (subst interpolate_some.simps)
    using 1 by (auto split: option.splits sum.splits prod.splits)
qed

lemma before_get_not_LocalizationError: "before_get d val \<noteq> Inl (LocalizationError m c)"
  by (simp add: before_get_def interpolate_some_not_LocalizationError)

lemma get_found:
  assumes "sections self section = Some sec"
  shows "get self section option =
           (case (defaults self ++ sec) (lower option) of
              None \<Rightarrow> Inl NoOptionError
            | Some None \<Rightarrow> Inr None
            | Some (Some val) \<Rightarrow>
                (case before_get (defaults self ++ sec) val of
                   Inl ex \<Rightarrow> Inl ex
                 | Inr s \<Rightarrow> Inr (Some s)))"
  using assms by (simp add: get_def unify_values_def optionxform_def)

lemma has_option_found:
  assumes "sections self section = Some sec" "section \<noteq> []" "section \<noteq> default_section"
  shows "has_option self section option = ((defaults self ++ sec) (lower option) \<noteq> None)"
  using assms by (auto simp: has_option_def optionxform_def map_add_def dom_def split: option.splits)

lemma map_add_None_both: "(d ++ sec) k = None \<longleftrightarrow> sec k = None \<and> d k = None"
  by simp

lemma found_result_not_LocalizationError: "found_result d v \<noteq> Inl (LocalizationError m c)"
  using before_get_not_LocalizationError[of d _ m c]
  by (auto simp: found_result_def split: option.splits sum.splits)



lemma get_error_msg_found:
  assumes "sections self ''error_codes'' = Some sec"
    and "(defaults self ++ sec) (lower (str code)) = Some v"
  shows "fst (get_error_msg self code) = found_result (defaults self ++ sec) v"
proof -
  have "has_option self ''error_codes'' (str code)"
    using assms(2) by (simp add: has_option_found[OF assms(1)] default_section_def)
  moreover have "has_section self ''error_codes''"
    using assms(1) by (simp add: has_section_def dom_def)
  ultimately show ?thesis using assms(2)
    by (simp add: get_error_msg_def get_found[OF assms(1)] found_result_def format_string_def
        split: option.splits sum.splits)
qed

lemma get_msg_no_section:
  assumes "sections self ''messages'' = None"
  shows "fst (get_msg self message_key)
          = Inl (LocalizationError (''Localization file '' @ resources_p self
                  @ '' is corrupt: It is missing the messages section.'') 4)"
  using assms by (simp add: get_msg_def has_section_def dom_def LocalizationError_init_def)

lemma get_msg_no_option:
  assumes "sections self ''messages'' = Some sec"
    and "(defaults self ++ sec) (lower message_key) = None"
  shows "fst (get_msg self message_key)
          = Inl (LocalizationError (''Localization file '' @ resources_p self
                  @ '' is corrupt: It is missing the message: '' @ message_key @ ''.'') 5)"
proof -
  have "\<not> has_option self ''messages'' message_key"
    using assms(2) by (simp add: has_option_found[OF assms(1)] default_section_def)
  moreover have "has_section self ''messages''"
    using assms(1) by (simp add: has_section_def dom_def)
  ultimately show ?thesis
    by (simp add: get_msg_def LocalizationError_init_def)
qed

lemma get_msg_found:
  assumes "sections self ''messages'' = Some sec"
    and "(defaults self ++ sec) (lower message_key) = Some v"
  shows "fst (get_msg self message_key) = found_result (defaults self ++ sec) v"
proof -
  have "has_option self ''messages'' message_key"
    using assms(2) by (simp add: has_option_found[OF assms(1)] default_section_def)
  moreover have "has_section self ''messages''"
    using assms(1) by (simp add: has_section_def dom_def)
  ultimately show ?thesis using assms(2)
    by (simp add: get_msg_def get_found[OF assms(1)] found_result_def format_string_def
        split: option.splits sum.splits)
qed




text \<open>
  C2 (amended). \<open>get_msg\<close> raises \<open>LocalizationError\<close> with code 4 exactly when there is no
  \<open>messages\<close> section; it raises \<open>LocalizationError\<close> with code 5 exactly when the section
  exists and the lower-cased key is a key neither of the section nor of the DEFAULT
  section; when the key is found with a string as its value, the result is the formatting
  transform of the parser's interpolation of that string, or the exception the
  interpolation raises: for a value without a percent sign, the formatting transform of
  the stored value itself. Whenever the key is found, the outcome is the one of
  \<open>get_error_msg\<close> on an object that holds the same entries as its \<open>error_codes\<close> section.
\<close>

theorem get_msg_outcomes:
  "((\<exists>m. fst (get_msg self message_key) = Inl (LocalizationError m 4))
      \<longleftrightarrow> sections self ''messages'' = None)
   \<and> (sections self ''messages'' = None \<longrightarrow>
        fst (get_msg self message_key)
          = Inl (LocalizationError (''Localization file '' @ resources_p self
                  @ '' is corrupt: It is missing the messages section.'') 4))
   \<and> ((\<exists>m. fst (get_msg self message_key) = Inl (LocalizationError m 5))
      \<longleftrightarrow> (\<exists>sec. sections self ''messages'' = Some sec
                  \<and> sec (lower message_key) = None \<and> defaults self (lower message_key) = None))
   \<and> (\<forall>sec. sections self ''messages'' = Some sec \<longrightarrow>
        sec (lower message_key) = None \<longrightarrow> defaults self (lower message_key) = None \<longrightarrow>
        fst (get_msg self message_key)
          = Inl (LocalizationError (''Localization file '' @ resources_p self
                  @ '' is corrupt: It is missing the message: '' @ message_key @ ''.'') 5))
   \<and> (\<forall>sec val. sections self ''messages'' = Some sec \<longrightarrow>
        (defaults self ++ sec) (lower message_key) = Some (Some val) \<longrightarrow>
        fst (get_msg self message_key)
          = (case before_get (defaults self ++ sec) val of
               Inl ex \<Rightarrow> Inl ex
             | Inr s \<Rightarrow> Inr (format_output s))
        \<and> (CHR ''%'' \<notin> set val \<longrightarrow> fst (get_msg self message_key) = Inr (format_output val)))
   \<and> (\<forall>sec v other. sections self ''messages'' = Some sec \<longrightarrow>
        (defaults self ++ sec) (lower message_key) = Some v \<longrightarrow>
        sections other ''error_codes'' = Some sec \<longrightarrow> defaults other = defaults self \<longrightarrow>
        fst (get_msg self message_key) = fst (get_error_msg other (CodeStr message_key)))"
proof -
  have same: "fst (get_msg self message_key) = fst (get_error_msg other (CodeStr message_key))"
    if "sections self ''messages'' = Some sec" "(defaults self ++ sec) (lower message_key) = Some v"
      "sections other ''error_codes'' = Some sec" "defaults other = defaults self"
    for sec v other
  proof -
    from that(2,4) have "(defaults other ++ sec) (lower (str (CodeStr message_key))) = Some v"
      by simp
    from get_error_msg_found[OF that(3) this] get_msg_found[OF that(1,2)] that(4)
    show ?thesis by simp
  qed
  show ?thesis
  proof (cases "sections self ''messages''")
    case None
    show ?thesis unfolding get_msg_no_section[OF None] using None by simp
  next
    case (Some sec)
    show ?thesis
    proof (cases "(defaults self ++ sec) (lower message_key)")
      case None
      show ?thesis unfolding get_msg_no_option[OF Some None]
        using Some None by (simp add: map_add_Some_iff)
    next
      case found: (Some v)
      then have nn: "\<not> (sec (lower message_key) = None \<and> defaults self (lower message_key) = None)"
        by (simp flip: map_add_None_both)
      note R = get_msg_found[OF Some found]
      have no: "fst (get_msg self message_key) \<noteq> Inl (LocalizationError m c)" for m c
        unfolding R by (rule found_result_not_LocalizationError)
      have "fst (get_msg self message_key)
            = (case before_get (defaults self ++ sec) val of
                 Inl ex \<Rightarrow> Inl ex
               | Inr s \<Rightarrow> Inr (format_output s))
          \<and> (CHR ''%'' \<notin> set val \<longrightarrow> fst (get_msg self message_key) = Inr (format_output val))"
        if "v = Some val" for val
        unfolding R that by (simp add: found_result_def before_get_plain)
      with Some found nn no same show ?thesis by auto
    qed
  qed
qed

theorem get_msg_outcomes_witness:
  "fst (get_msg resource_documented ''do_quit'') = Inr ''Do you really want to quit?''
   \<and> fst (get_msg resource_documented ''goodbye'')
       = Inl (LocalizationError ''Localization file /path/to/resource/myapp_english.ini is corrupt: It is missing the message: goodbye.'' 5)"
proof -
  let ?sec = "[''hello'' \<mapsto> Some ''Hello world.'', ''do_quit'' \<mapsto> Some ''Do you really want to quit?'']"
  have sec: "sections resource_documented ''messages'' = Some ?sec"
    by (simp add: resource_documented_def)
  have k1: "lower ''do_quit'' = ''do_quit''" and k2: "lower ''goodbye'' = ''goodbye''"
    by (simp_all add: lower_def lower_char_def)
  have found: "(defaults resource_documented ++ ?sec) (lower ''do_quit'')
                = Some (Some ''Do you really want to quit?'')"
    unfolding k1 by (simp add: resource_documented_def)
  have missing: "?sec (lower ''goodbye'') = None"
      "defaults resource_documented (lower ''goodbye'') = None"
    unfolding k2 by (simp_all add: resource_documented_def)
  have plain: "format_output ''Do you really want to quit?'' = ''Do you really want to quit?''"
    by (simp add: format_output_def backslash_def)
  note returned = get_msg_outcomes[of resource_documented "''do_quit''",
      THEN conjunct2, THEN conjunct2, THEN conjunct2, THEN conjunct2, THEN conjunct1,
      rule_format, OF sec found, THEN conjunct2, rule_format]
  note raised = get_msg_outcomes[of resource_documented "''goodbye''",
      THEN conjunct2, THEN conjunct2, THEN conjunct2, THEN conjunct1, rule_format, OF sec missing]
  from returned have "fst (get_msg resource_documented ''do_quit'') = Inr ''Do you really want to quit?''"
    by (simp add: plain)
  moreover from raised
  have "fst (get_msg resource_documented ''goodbye'')
       = Inl (LocalizationError ''Localization file /path/to/resource/myapp_english.ini is corrupt: It is missing the message: goodbye.'' 5)"
    by (simp add: resource_documented_def)
  ultimately show ?thesis by simp
qed

text \<open>
  The claim as stated fails on a template with a percent sign that is not part of an
  interpolation: the section exists and holds the key, and the call raises the parser's
  \<open>InterpolationSyntaxError\<close> instead of returning the template.
\<close>

theorem get_msg_percent_sign:
  "sections resource_percent ''messages'' = Some [''progress'' \<mapsto> Some ''{percent}% done'']
   \<and> fst (get_msg resource_percent ''progress'') = Inl InterpolationSyntaxError"
  by (simp add: resource_percent_def get_msg_def has_section_def has_option_def
      default_section_def optionxform_def lower_def lower_char_def
      get_def unify_values_def before_get_def interpolate_some.simps
      MAX_INTERPOLATION_DEPTH_def find_char_def)

section \<open>Construction\<close>

lemma init_result:
  "init os d p l =
     (let n = p @ ''_'' @ (case l of None \<Rightarrow> ''english'' | Some x \<Rightarrow> x) @ ''.ini'';
          self = \<lparr>resources_d = d, resources_n = n, resources_p = join d n,
                  defaults = Map.empty, sections = Map.empty\<rparr>
      in if \<not> path_exists os d
         then Inl (LocalizationError (''Resources directory '' @ d @ '' does not exist.'') 0)
         else if \<not> path_exists os (join d n)
         then Inl (LocalizationError (''Cannot locate resource file: '' @ path_abspath os (join d n)) 1)
         else case open_text os (join d n) of
                None \<Rightarrow> Inr self
              | Some text \<Rightarrow>
                  (case ini_read os text of
                     Inl ex \<Rightarrow> Inl ex
                   | Inr (dflt, secs) \<Rightarrow> Inr (self\<lparr>defaults := dflt, sections := secs\<rparr>)))"
  by (simp add: init_def read_resources_def read_def LocalizationError_init_def Let_def)

lemma init_platform_example:
  "init platform_example ''/res'' ''app'' None = Inr resource_app"
  by (simp add: init_result Let_def platform_example_def resource_app_def join_def suffix_to_prefix)


text \<open>
  C3. Construction from a directory, a prefix and a language raises \<open>LocalizationError\<close>
  with code 0 when the directory does not exist; when the directory exists and the
  resolved file does not, it raises \<open>LocalizationError\<close> with code 1 and the message
  "Cannot locate resource file: " followed by the absolute path of the resolved file; when
  the file exists, can be read and the reader accepts its text, construction succeeds and
  the object holds what the reader returned. (A file that exists and cannot be opened is
  skipped by the parser's \<open>read\<close>: construction succeeds with no section.)
\<close>

theorem init_outcomes:
  "(\<not> path_exists os d \<longrightarrow>
      init os d p l
        = Inl (LocalizationError (''Resources directory '' @ d @ '' does not exist.'') 0))
   \<and> (path_exists os d \<longrightarrow>
        \<not> path_exists os (join d (p @ ''_'' @ (case l of None \<Rightarrow> ''english'' | Some x \<Rightarrow> x) @ ''.ini'')) \<longrightarrow>
        init os d p l
          = Inl (LocalizationError
                  (''Cannot locate resource file: ''
                    @ path_abspath os (join d (p @ ''_'' @ (case l of None \<Rightarrow> ''english'' | Some x \<Rightarrow> x) @ ''.ini'')))
                  1))
   \<and> (\<forall>text dflt secs.
        path_exists os d \<longrightarrow>
        path_exists os (join d (p @ ''_'' @ (case l of None \<Rightarrow> ''english'' | Some x \<Rightarrow> x) @ ''.ini'')) \<longrightarrow>
        open_text os (join d (p @ ''_'' @ (case l of None \<Rightarrow> ''english'' | Some x \<Rightarrow> x) @ ''.ini'')) = Some text \<longrightarrow>
        ini_read os text = Inr (dflt, secs) \<longrightarrow>
        init os d p l
          = Inr \<lparr>resources_d = d,
                 resources_n = p @ ''_'' @ (case l of None \<Rightarrow> ''english'' | Some x \<Rightarrow> x) @ ''.ini'',
                 resources_p = join d (p @ ''_'' @ (case l of None \<Rightarrow> ''english'' | Some x \<Rightarrow> x) @ ''.ini''),
                 defaults = dflt,
                 sections = secs\<rparr>)
   \<and> (path_exists os d \<longrightarrow>
        path_exists os (join d (p @ ''_'' @ (case l of None \<Rightarrow> ''english'' | Some x \<Rightarrow> x) @ ''.ini'')) \<longrightarrow>
        open_text os (join d (p @ ''_'' @ (case l of None \<Rightarrow> ''english'' | Some x \<Rightarrow> x) @ ''.ini'')) = None \<longrightarrow>
        init os d p l
          = Inr \<lparr>resources_d = d,
                 resources_n = p @ ''_'' @ (case l of None \<Rightarrow> ''english'' | Some x \<Rightarrow> x) @ ''.ini'',
                 resources_p = join d (p @ ''_'' @ (case l of None \<Rightarrow> ''english'' | Some x \<Rightarrow> x) @ ''.ini''),
                 defaults = Map.empty,
                 sections = Map.empty\<rparr>)"
  by (simp add: init_result Let_def)

theorem init_outcomes_witness:
  "init platform_example ''/missing'' ''app'' None
      = Inl (LocalizationError ''Resources directory /missing does not exist.'' 0)
   \<and> init platform_example ''/res'' ''app'' (Some ''french'')
      = Inl (LocalizationError ''Cannot locate resource file: /res/app_french.ini'' 1)
   \<and> init platform_example ''/res'' ''app'' None
      = Inr \<lparr>resources_d = ''/res'',
             resources_n = ''app_english.ini'',
             resources_p = ''/res/app_english.ini'',
             defaults = Map.empty,
             sections = [''error_codes'' \<mapsto>
                     [''101'' \<mapsto> Some ''Error {{COLOR_RED}}number {num}{{COLOR_NONE}}'']]\<rparr>"
proof -
  let ?text = "''[error_codes]'' @ [newline]
                 @ ''101=Error {{COLOR_RED}}number {num}{{COLOR_NONE}}'' @ [newline]"
  have e1: "\<not> path_exists platform_example ''/missing''"
    and e2: "path_exists platform_example ''/res''"
    by (simp_all add: platform_example_def)
  have j1: "join ''/res'' (''app'' @ ''_'' @ (case Some ''french'' of None \<Rightarrow> ''english'' | Some x \<Rightarrow> x) @ ''.ini'')
              = ''/res/app_french.ini''"
    and j2: "join ''/res'' (''app'' @ ''_'' @ (case None of None \<Rightarrow> ''english'' | Some x \<Rightarrow> x) @ ''.ini'')
              = ''/res/app_english.ini''"
    by (simp_all add: join_def suffix_to_prefix)
  have e3: "\<not> path_exists platform_example ''/res/app_french.ini''"
    and e4: "path_exists platform_example ''/res/app_english.ini''"
    and a3: "path_abspath platform_example ''/res/app_french.ini'' = ''/res/app_french.ini''"
    and o4: "open_text platform_example ''/res/app_english.ini'' = Some ?text"
    and r4: "ini_read platform_example ?text
              = Inr (Map.empty, [''error_codes'' \<mapsto>
                     [''101'' \<mapsto> Some ''Error {{COLOR_RED}}number {num}{{COLOR_NONE}}'']])"
    by (simp_all add: platform_example_def)
  note c1 = init_outcomes[of platform_example "''/missing''" "''app''" None,
      THEN conjunct1, rule_format, OF e1]
  note c2 = init_outcomes[of platform_example "''/res''" "''app''" "Some ''french''",
      THEN conjunct2, THEN conjunct1, rule_format, OF e2, unfolded j1, OF e3, unfolded a3]
  note c3 = init_outcomes[of platform_example "''/res''" "''app''" None,
      THEN conjunct2, THEN conjunct2, THEN conjunct1, rule_format, OF e2, unfolded j2, OF e4 o4 r4]
  from c1 c2 c3 show ?thesis by simp
qed

section \<open>The object during its life\<close>

lemma snd_call_method: "snd (call_method self c) = self"
  by (cases c) (simp_all add: get_error_msg_def get_msg_def split: sum.splits)




text \<open>
  C9. A call of \<open>get_error_msg\<close> or of \<open>get_msg\<close>, whether it returns or raises, leaves
  the object as it was: its sections, its defaults and its resolved path are unchanged.
\<close>

theorem lookups_leave_object:
  "snd (get_error_msg self code) = self
   \<and> snd (get_msg self message_key) = self
   \<and> sections (snd (get_error_msg self code)) = sections self
   \<and> defaults (snd (get_error_msg self code)) = defaults self
   \<and> resources_p (snd (get_error_msg self code)) = resources_p self
   \<and> sections (snd (get_msg self message_key)) = sections self
   \<and> defaults (snd (get_msg self message_key)) = defaults self
   \<and> resources_p (snd (get_msg self message_key)) = resources_p self"
proof -
  have "snd (get_error_msg self code) = self"
    using snd_call_method[of self "Get_error_msg code"] by simp
  moreover have "snd (get_msg self message_key) = self"
    using snd_call_method[of self "Get_msg message_key"] by simp
  ultimately show ?thesis by simp
qed


section \<open>The end-to-end example\<close>

text \<open>
  C7 (amended). For a loader whose resource file \<open>app_english.ini\<close> holds, in its
  \<open>error_codes\<close> section, the entry \<open>101=Error {{COLOR_RED}}number {num}{{COLOR_NONE}}\<close>,
  \<open>get_error_msg(101)\<close> returns \<open>Error\<close>, a space, the red escape sequence,
  \<open>number {num}\<close> and the reset escape sequence.
\<close>

theorem get_error_msg_101:
  assumes "path_exists os d"
    and "path_exists os (join d ''app_english.ini'')"
    and "open_text os (join d ''app_english.ini'') = Some text"
    and "ini_read os text = Inr (dflt, secs)"
    and "secs ''error_codes'' = Some sec"
    and "sec ''101'' = Some (Some ''Error {{COLOR_RED}}number {num}{{COLOR_NONE}}'')"
  shows "\<exists>self. init os d ''app'' None = Inr self
          \<and> fst (get_error_msg self (CodeInt 101))
              = Inr (''Error '' @ CHR 0x1B # ''[31mnumber {num}'' @ CHR 0x1B # ''[0m'')"
proof -
  let ?self = "\<lparr>resources_d = d, resources_n = ''app_english.ini'',
                 resources_p = join d ''app_english.ini'', defaults = dflt, sections = secs\<rparr>"
  have i: "init os d ''app'' None = Inr ?self"
    using assms(1-4) by (simp add: init_result Let_def)
  have k: "lower (str (CodeInt 101)) = ''101''"
    by (simp add: str_int_def str_nat.simps lower_def lower_char_def)
  have f: "(defaults ?self ++ sec) (lower (str (CodeInt 101)))
            = Some (Some ''Error {{COLOR_RED}}number {num}{{COLOR_NONE}}'')"
    unfolding k using assms(6) by (simp add: map_add_def)
  have s: "sections ?self ''error_codes'' = Some sec"
    using assms(5) by simp
  have v: "format_output ''Error {{COLOR_RED}}number {num}{{COLOR_NONE}}''
            = ''Error '' @ CHR 0x1B # ''[31mnumber {num}'' @ CHR 0x1B # ''[0m''"
    by (simp add: format_output_def color_defs ESC_def backslash_def)
  have "fst (get_error_msg ?self (CodeInt 101))
          = Inr (''Error '' @ CHR 0x1B # ''[31mnumber {num}'' @ CHR 0x1B # ''[0m'')"
    unfolding get_error_msg_found[OF s f] by (simp add: found_result_def before_get_plain v)
  with i show ?thesis by blast
qed

theorem get_error_msg_101_witness:
  "\<exists>self. init platform_example ''/res'' ''app'' None = Inr self
          \<and> fst (get_error_msg self (CodeInt 101))
              = Inr (''Error '' @ CHR 0x1B # ''[31mnumber {num}'' @ CHR 0x1B # ''[0m'')"
proof (rule get_error_msg_101)
  let ?text = "''[error_codes]'' @ [newline]
                 @ ''101=Error {{COLOR_RED}}number {num}{{COLOR_NONE}}'' @ [newline]"
  have j: "join ''/res'' ''app_english.ini'' = ''/res/app_english.ini''"
    by (simp add: join_def suffix_to_prefix)
  show "path_exists platform_example ''/res''"
    by (simp add: platform_example_def)
  show "path_exists platform_example (join ''/res'' ''app_english.ini'')"
    unfolding j by (simp add: platform_example_def)
  show "open_text platform_example (join ''/res'' ''app_english.ini'') = Some ?text"
    unfolding j by (simp add: platform_example_def)
  show "ini_read platform_example ?text
          = Inr (Map.empty, [''error_codes'' \<mapsto>
                     [''101'' \<mapsto> Some ''Error {{COLOR_RED}}number {num}{{COLOR_NONE}}'']])"
    by (simp add: platform_example_def)
  show "[''error_codes'' \<mapsto> [''101'' \<mapsto> Some ''Error {{COLOR_RED}}number {num}{{COLOR_NONE}}'']] ''error_codes''
          = Some [''101'' \<mapsto> Some ''Error {{COLOR_RED}}number {num}{{COLOR_NONE}}'']"
    by simp
  show "[''101'' \<mapsto> Some ''Error {{COLOR_RED}}number {num}{{COLOR_NONE}}''] ''101''
          = Some (Some ''Error {{COLOR_RED}}number {num}{{COLOR_NONE}}'')"
    by simp
qed

text \<open>
  The string of the claim, which starts with the red escape sequence and has lost the word
  \<open>number\<close>, is not what the call returns.
\<close>

theorem get_error_msg_101_not_as_claimed:
  "init platform_example ''/res'' ''app'' None = Inr resource_app
   \<and> fst (get_error_msg resource_app (CodeInt 101))
       \<noteq> Inr (CHR 0x1B # ''[31mError {num}'' @ CHR 0x1B # ''[0m'')
   \<and> fst (get_error_msg resource_app (CodeInt 101))
       = Inr (''Error '' @ CHR 0x1B # ''[31mnumber {num}'' @ CHR 0x1B # ''[0m'')"
proof -
  have "fst (get_error_msg resource_app (CodeInt 101))
       = Inr (''Error '' @ CHR 0x1B # ''[31mnumber {num}'' @ CHR 0x1B # ''[0m'')"
    by (simp add: resource_app_def get_error_msg_def has_section_def has_option_def
      default_section_def optionxform_def lower_def lower_char_def str_int_def str_nat.simps
      get_def unify_values_def before_get_def interpolate_some.simps
      MAX_INTERPOLATION_DEPTH_def find_char_def format_string_def format_output_def
      color_defs ESC_def backslash_def)
  with init_platform_example show ?thesis by simp
qed

end
